theory Spec2Isabelle
  imports Main "HOL-Library.Word"
begin

section \<open>Resources and readers of \<^verbatim>\<open>hikari/files.py\<close>\<close>

text \<open>
  A shallow embedding of the resource module. A Python \<^verbatim>\<open>str\<close> is a \<open>string\<close>
  whose characters stand for code points below 256, a Python \<^verbatim>\<open>bytes\<close> is a list of
  8-bit words. Exceptions are values of the type \<open>error\<close>, and a function that may raise
  returns \<open>error + 'a\<close> with \<open>Inl\<close> for the exception.
\<close>

subsection \<open>Values\<close>

type_synonym byte = "8 word"
type_synonym bytes = "byte list"

datatype error =
    TypeError string
  | ValueError string
  | RuntimeError string
  | FileExistsError string
  | IsADirectoryError string
  | FileNotFoundError string
  | AttributeError string
  | URLError string
  | SameFileError string
  | HTTPResponseError nat

definition MAGIC :: nat where
  "MAGIC = 50 * 1024"

definition SPOILER_TAG :: string where
  "SPOILER_TAG = ''SPOILER_''"

text \<open>\<^verbatim>\<open>bytes(s, "utf-8")\<close> on a string of code points below 256.\<close>

definition utf8_char :: "char \<Rightarrow> bytes" where
  "utf8_char c =
     (if (of_char c :: nat) < 128 then [of_char c]
      else [of_nat (192 + (of_char c :: nat) div 64), of_nat (128 + (of_char c :: nat) mod 64)])"

definition utf8_encode :: "string \<Rightarrow> bytes" where
  "utf8_encode s = concat (map utf8_char s)"

text \<open>\<^verbatim>\<open>a or b\<close> and \<^verbatim>\<open>a if a else b\<close> for an optional string \<^verbatim>\<open>a\<close>: \<^verbatim>\<open>None\<close> and \<^verbatim>\<open>""\<close> are false.\<close>

fun or_else :: "string option \<Rightarrow> string \<Rightarrow> string" where
  "or_else None d = d"
| "or_else (Some s) d = (if s \<noteq> [] then s else d)"

text \<open>\<^verbatim>\<open>s.startswith(p)\<close> and \<^verbatim>\<open>s.rpartition(c)\<close> for a one-character separator.\<close>

definition startswith :: "'a list \<Rightarrow> 'a list \<Rightarrow> bool" where
  "startswith s p = (take (length p) s = p)"

definition rpartition :: "char \<Rightarrow> string \<Rightarrow> string \<times> string \<times> string" where
  "rpartition c s =
     (if c \<in> set s
      then (rev (tl (dropWhile (\<lambda>x. x \<noteq> c) (rev s))), [c], rev (takeWhile (\<lambda>x. x \<noteq> c) (rev s)))
      else ([], [], s))"

subsection \<open>Chunk sources\<close>

text \<open>
  What a lazy source hands out: a \<^verbatim>\<open>bytes\<close> object, a \<^verbatim>\<open>str\<close>, or an object of another
  type, of which only \<^verbatim>\<open>type(x).__name__\<close> is observed.
\<close>

datatype chunk = BytesChunk bytes | StrChunk string | OtherChunk string

text \<open>The shapes \<^verbatim>\<open>_wrap_iter\<close> tells apart, in the order of its tests.\<close>

datatype lazy_kind = AsyncIterator | SyncIterator | Generator | Iterable | AsyncIterable

datatype payload =
    RawBytes bytes
  | Lazy lazy_kind "chunk list"
  | NotIterable string

text \<open>The raw types of \<^verbatim>\<open>RAWISH_TYPES\<close>; the two streams hold what is left to read.\<close>

datatype rawish =
    RBytes bytes
  | RByteArray bytes
  | RMemoryView bytes
  | RBytesIO bytes
  | RStringIO string

fun unwrap_bytes :: "rawish \<Rightarrow> bytes" where
  "unwrap_bytes (RByteArray b) = b"
| "unwrap_bytes (RMemoryView b) = b"
| "unwrap_bytes (RStringIO s) = utf8_encode s"
| "unwrap_bytes (RBytesIO b) = b"
| "unwrap_bytes (RBytes b) = b"

subsection \<open>Paths\<close>

text \<open>
  \<^verbatim>\<open>pathlib.Path\<close> on a POSIX system: a root (\<^verbatim>\<open>""\<close>, \<^verbatim>\<open>"/"\<close> or \<^verbatim>\<open>"//"\<close>) and the
  components, without the empty ones and without \<^verbatim>\<open>"."\<close>.
\<close>

datatype path = Path (root: string) (tail: "string list")

fun split_on :: "char \<Rightarrow> string \<Rightarrow> string list" where
  "split_on c [] = [[]]"
| "split_on c (x # xs) =
     (if x = c then [] # split_on c xs
      else (case split_on c xs of [] \<Rightarrow> [[x]] | y # ys \<Rightarrow> (x # y) # ys))"

definition path_root :: "string \<Rightarrow> string" where
  "path_root s =
     (if startswith s ''/'' then
        (if startswith s ''//'' \<and> \<not> startswith s ''///'' then ''//'' else ''/'')
      else [])"

definition ensure_path :: "string \<Rightarrow> path" where
  "ensure_path s = Path (path_root s) (filter (\<lambda>p. p \<noteq> [] \<and> p \<noteq> ''.'') (split_on CHR ''/'' s))"

definition path_name :: "path \<Rightarrow> string" where
  "path_name p = (if tail p = [] then [] else last (tail p))"

subsection \<open>Resources\<close>

datatype resource =
    URL (url_url: string) (url_filename: "string option")
  | File (file_path: path) (file_filename: "string option") (file_is_spoiler: bool)
  | Bytes (bytes_data: payload) (bytes_filename: string) (bytes_mimetype: "string option")
      (bytes_is_spoiler: bool)

datatype resource_class = URL_class | File_class | Bytes_class

fun class_of :: "resource \<Rightarrow> resource_class" where
  "class_of (URL _ _) = URL_class"
| "class_of (File _ _ _) = File_class"
| "class_of (Bytes _ _ _ _) = Bytes_class"

text \<open>
  The standard library and \<^verbatim>\<open>hikari.internal\<close> functions the module calls:
  \<^verbatim>\<open>mimetypes.guess_type(x)[0]\<close> and \<^verbatim>\<open>urllib.parse.urlparse(u).path\<close> (both raise
  \<^verbatim>\<open>ValueError\<close> on a malformed network location), \<^verbatim>\<open>mimetypes.guess_extension\<close>,
  \<^verbatim>\<open>urllib.request.urlopen(u).read()\<close> and \<^verbatim>\<open>time.uuid()\<close>. The module is modelled
  for any such library; a model of the CPython functions follows below.
\<close>

record library =
  guess_type :: "string \<Rightarrow> error + string option"
  guess_extension :: "string \<Rightarrow> string option"
  urlparse_path :: "string \<Rightarrow> error + string"
  urlopen_read :: "string \<Rightarrow> error + bytes"
  uuid :: string

definition guess_mimetype_from_filename :: "library \<Rightarrow> string \<Rightarrow> error + string option" where
  "guess_mimetype_from_filename lib name = guess_type lib name"

definition guess_file_extension :: "library \<Rightarrow> string \<Rightarrow> string option" where
  "guess_file_extension lib mimetype = guess_extension lib mimetype"

text \<open>The constructors \<^verbatim>\<open>URL.__init__\<close>, \<^verbatim>\<open>File.__init__\<close> and \<^verbatim>\<open>Bytes.__init__\<close>.\<close>

definition URL_init :: "string \<Rightarrow> string option \<Rightarrow> resource" where
  "URL_init u filename = URL u filename"

definition File_init :: "string \<Rightarrow> string option \<Rightarrow> bool \<Rightarrow> resource" where
  "File_init p filename spoiler = File (ensure_path p) filename spoiler"

text \<open>The data argument of \<^verbatim>\<open>Bytes\<close>: a raw value or a lazy source.\<close>

datatype bytes_arg = RawArg rawish | LazyArg lazy_kind "chunk list" | OtherArg string

fun bytes_arg_payload :: "bytes_arg \<Rightarrow> payload" where
  "bytes_arg_payload (RawArg r) = RawBytes (unwrap_bytes r)"
| "bytes_arg_payload (LazyArg k cs) = Lazy k cs"
| "bytes_arg_payload (OtherArg t) = NotIterable t"

definition Bytes_init ::
  "library \<Rightarrow> bytes_arg \<Rightarrow> string \<Rightarrow> string option \<Rightarrow> bool \<Rightarrow> error + resource" where
  "Bytes_init lib data filename mimetype spoiler =
     (case mimetype of
        None \<Rightarrow>
          (case guess_mimetype_from_filename lib filename of
             Inl e \<Rightarrow> Inl e
           | Inr guess \<Rightarrow>
               Inr (Bytes (bytes_arg_payload data) filename
                      (Some (or_else guess ''text/plain;charset=UTF-8'')) spoiler))
      | Some m \<Rightarrow> Inr (Bytes (bytes_arg_payload data) filename (Some m) spoiler))"

text \<open>\<^verbatim>\<open>os.path.basename\<close> on POSIX: what follows the last slash.\<close>

definition basename :: "string \<Rightarrow> string" where
  "basename p = rev (takeWhile (\<lambda>x. x \<noteq> CHR ''/'') (rev p))"

text \<open>The \<^verbatim>\<open>filename\<close> property of each class.\<close>

definition File_filename :: "path \<Rightarrow> string option \<Rightarrow> bool \<Rightarrow> string" where
  "File_filename p fn spoiler =
     (let filename = or_else fn (path_name p)
      in if spoiler then SPOILER_TAG @ filename else filename)"

definition Bytes_filename :: "string \<Rightarrow> bool \<Rightarrow> string" where
  "Bytes_filename fn spoiler = (if spoiler then SPOILER_TAG @ fn else fn)"

definition URL_filename :: "library \<Rightarrow> string \<Rightarrow> string option \<Rightarrow> error + string" where
  "URL_filename lib u fn =
     (case fn of
        Some f \<Rightarrow>
          (if f \<noteq> [] then Inr f
           else (case urlparse_path lib u of Inl e \<Rightarrow> Inl e | Inr p \<Rightarrow> Inr (basename p)))
      | None \<Rightarrow> (case urlparse_path lib u of Inl e \<Rightarrow> Inl e | Inr p \<Rightarrow> Inr (basename p)))"

fun filename :: "library \<Rightarrow> resource \<Rightarrow> error + string" where
  "filename lib (URL u fn) = URL_filename lib u fn"
| "filename lib (File p fn spoiler) = Inr (File_filename p fn spoiler)"
| "filename lib (Bytes d fn m spoiler) = Inr (Bytes_filename fn spoiler)"

text \<open>The \<^verbatim>\<open>url\<close> property.\<close>

fun url :: "resource \<Rightarrow> string" where
  "url (URL u fn) = u"
| "url (File p fn spoiler) = ''attachment://'' @ File_filename p fn spoiler"
| "url (Bytes d fn m spoiler) = ''attachment://'' @ Bytes_filename fn spoiler"

text \<open>The \<^verbatim>\<open>extension\<close> property: \<^verbatim>\<open>rpartition\<close> of the filename.\<close>

definition extension_of :: "string \<Rightarrow> string option" where
  "extension_of fn = (case rpartition CHR ''.'' fn of (_, _, ext) \<Rightarrow> if ext \<noteq> fn then Some ext else None)"

definition extension :: "library \<Rightarrow> resource \<Rightarrow> error + string option" where
  "extension lib r = (case filename lib r of Inl e \<Rightarrow> Inl e | Inr fn \<Rightarrow> Inr (extension_of fn))"

text \<open>
  \<^verbatim>\<open>Resource.__eq__\<close> and \<^verbatim>\<open>Resource.__hash__\<close>. The other operand of \<^verbatim>\<open>==\<close> is any
  object; \<open>py_hash\<close> is Python's hash of the pair of the class and the URL.
\<close>

datatype py_object = ResourceObject resource | OtherObject

fun resource_eq :: "resource \<Rightarrow> py_object \<Rightarrow> bool" where
  "resource_eq self (ResourceObject other) = (url self = url other)"
| "resource_eq self OtherObject = False"

definition resource_hash :: "(resource_class \<times> string \<Rightarrow> int) \<Rightarrow> resource \<Rightarrow> int" where
  "resource_hash py_hash self = py_hash (class_of self, url self)"

subsection \<open>A model of the CPython library functions\<close>

text \<open>
  The functions below follow CPython 3.12 on a POSIX system. They give the module a
  concrete library to run with; the table of \<^verbatim>\<open>mimetypes\<close>, the validation of a
  bracketed or non-ASCII network location and the token of \<^verbatim>\<open>time.uuid\<close> stay
  parameters.
\<close>

fun index_of :: "'a \<Rightarrow> 'a list \<Rightarrow> nat option" where
  "index_of x [] = None"
| "index_of x (y # ys) = (if x = y then Some 0 else map_option Suc (index_of x ys))"

definition ascii :: "string \<Rightarrow> bytes" where
  "ascii s = map of_char s"

text \<open>\<^verbatim>\<open>binascii.b2a_base64(s, newline=False)\<close>, decoded to a string.\<close>

definition b64_alphabet :: string where
  "b64_alphabet = ''ABCDEFGHIJKLMNOPQRSTUVWXYZabcdefghijklmnopqrstuvwxyz0123456789+/''"

definition b64_digit :: "nat \<Rightarrow> char" where
  "b64_digit n = b64_alphabet ! n"

fun b64encode :: "bytes \<Rightarrow> string" where
  "b64encode (a # b # c # rest) =
     b64_digit (unat a div 4) # b64_digit (unat a mod 4 * 16 + unat b div 16)
     # b64_digit (unat b mod 16 * 4 + unat c div 64) # b64_digit (unat c mod 64)
     # b64encode rest"
| "b64encode [a, b] =
     [b64_digit (unat a div 4), b64_digit (unat a mod 4 * 16 + unat b div 16),
      b64_digit (unat b mod 16 * 4), CHR ''='']"
| "b64encode [a] =
     [b64_digit (unat a div 4), b64_digit (unat a mod 4 * 16), CHR ''='', CHR ''='']"
| "b64encode [] = []"

text \<open>
  \<^verbatim>\<open>binascii.a2b_base64\<close> outside strict mode: characters that are not in the alphabet
  are skipped, a sufficient run of padding ends the input, and an incomplete group at
  the end of the input is an error.
\<close>

definition b64_value :: "byte \<Rightarrow> nat option" where
  "b64_value ch = index_of ch (ascii b64_alphabet)"

definition emit :: "nat \<Rightarrow> error + bytes \<Rightarrow> error + bytes" where
  "emit n r = (case r of Inl e \<Rightarrow> Inl e | Inr out \<Rightarrow> Inr (of_nat n # out))"

fun a2b_loop :: "nat \<Rightarrow> nat \<Rightarrow> nat \<Rightarrow> bytes \<Rightarrow> error + bytes" where
  "a2b_loop quad_pos leftchar pads [] =
     (if quad_pos = 0 then Inr []
      else if quad_pos = 1 then Inl (ValueError ''Invalid base64-encoded string'')
      else Inl (ValueError ''Incorrect padding''))"
| "a2b_loop quad_pos leftchar pads (ch # rest) =
     (if ch = of_char CHR ''='' then
        (if 2 \<le> quad_pos then
           (if 4 \<le> quad_pos + (pads + 1) then Inr []
            else a2b_loop quad_pos leftchar (pads + 1) rest)
         else a2b_loop quad_pos leftchar pads rest)
      else
        (case b64_value ch of
           None \<Rightarrow> a2b_loop quad_pos leftchar pads rest
         | Some v \<Rightarrow>
             (if quad_pos = 0 then a2b_loop 1 v 0 rest
              else if quad_pos = 1 then emit (leftchar * 4 + v div 16) (a2b_loop 2 (v mod 16) 0 rest)
              else if quad_pos = 2 then emit (leftchar * 16 + v div 4) (a2b_loop 3 (v mod 4) 0 rest)
              else emit (leftchar * 64 + v) (a2b_loop 0 0 0 rest))))"

definition decodebytes :: "bytes \<Rightarrow> error + bytes" where
  "decodebytes s = a2b_loop 0 0 0 s"

text \<open>\<^verbatim>\<open>urllib.parse.unquote_to_bytes\<close> of a string.\<close>

definition hex_value :: "byte \<Rightarrow> nat option" where
  "hex_value ch =
     (case index_of ch (ascii ''0123456789abcdef'') of
        Some v \<Rightarrow> Some v
      | None \<Rightarrow> map_option (\<lambda>v. v + 10) (index_of ch (ascii ''ABCDEF'')))"

fun split_bytes :: "byte \<Rightarrow> bytes \<Rightarrow> bytes list" where
  "split_bytes c [] = [[]]"
| "split_bytes c (x # xs) =
     (if x = c then [] # split_bytes c xs
      else (case split_bytes c xs of [] \<Rightarrow> [[x]] | y # ys \<Rightarrow> (x # y) # ys))"

fun unquote_item :: "bytes \<Rightarrow> bytes" where
  "unquote_item (h # l # rest) =
     (case (hex_value h, hex_value l) of
        (Some a, Some b) \<Rightarrow> of_nat (16 * a + b) # rest
      | _ \<Rightarrow> of_char CHR ''%'' # h # l # rest)"
| "unquote_item item = of_char CHR ''%'' # item"

definition unquote_to_bytes :: "string \<Rightarrow> bytes" where
  "unquote_to_bytes s =
     (case split_bytes (of_char CHR ''%'') (utf8_encode s) of
        [] \<Rightarrow> []
      | first # items \<Rightarrow> first @ concat (map unquote_item items))"

text \<open>
  \<^verbatim>\<open>urllib.request.urlopen\<close> of a data URL: the \<^verbatim>\<open>Request\<close> unwraps the URL and
  splits off and puts back a non-empty fragment, then \<^verbatim>\<open>DataHandler.data_open\<close> splits
  at the first colon and the first comma. Other schemes need the network or the disk
  and are not modelled: they are an \<^verbatim>\<open>URLError\<close> here.
\<close>

definition isspace :: "char \<Rightarrow> bool" where
  "isspace c = ((of_char c :: nat) \<in> {9, 10, 11, 12, 13, 28, 29, 30, 31, 32, 133, 160})"

definition strip :: "string \<Rightarrow> string" where
  "strip s = rev (dropWhile isspace (rev (dropWhile isspace s)))"

definition unwrap :: "string \<Rightarrow> string" where
  "unwrap u =
     (let a = strip u;
          b = (if take 1 a = ''<'' \<and> take 1 (rev a) = ''>'' then strip (butlast (drop 1 a)) else a)
      in if take 4 b = ''URL:'' then strip (drop 4 b) else b)"

definition splittag :: "string \<Rightarrow> string \<times> string option" where
  "splittag u =
     (case rpartition CHR ''#'' u of
        (p, delim, tag) \<Rightarrow> if delim \<noteq> [] then (p, Some tag) else (u, None))"

definition full_url :: "string \<Rightarrow> string" where
  "full_url u =
     (case splittag (unwrap u) of
        (p, Some tag) \<Rightarrow> if tag \<noteq> [] then p @ ''#'' @ tag else p
      | (p, None) \<Rightarrow> p)"

definition ascii_lower :: "char \<Rightarrow> char" where
  "ascii_lower c =
     (if (65::nat) \<le> of_char c \<and> (of_char c :: nat) \<le> 90 then char_of ((of_char c :: nat) + 32) else c)"

definition request_type :: "string \<Rightarrow> string option" where
  "request_type u =
     (let t = takeWhile (\<lambda>c. c \<noteq> CHR ''/'' \<and> c \<noteq> CHR '':'') u
      in if t \<noteq> [] \<and> take 1 (drop (length t) u) = '':'' then Some (map ascii_lower t) else None)"

definition data_open :: "string \<Rightarrow> error + bytes" where
  "data_open u =
     (let rest = drop 1 (dropWhile (\<lambda>c. c \<noteq> CHR '':'') u)
      in if CHR '','' \<notin> set rest then Inl (ValueError ''not enough values to unpack'')
         else
           (let mediatype = takeWhile (\<lambda>c. c \<noteq> CHR '','') rest;
                data = unquote_to_bytes (drop 1 (dropWhile (\<lambda>c. c \<noteq> CHR '','') rest))
            in if startswith (rev mediatype) (rev '';base64'') then decodebytes data
               else Inr data))"

definition std_urlopen_read :: "string \<Rightarrow> error + bytes" where
  "std_urlopen_read u =
     (case request_type (fst (splittag (unwrap u))) of
        None \<Rightarrow> Inl (ValueError ''unknown url type'')
      | Some t \<Rightarrow> if t = ''data'' then data_open (full_url u) else Inl (URLError t))"

text \<open>
  \<^verbatim>\<open>urllib.parse.urlparse\<close>, as far as the scheme and the path. \<open>netloc_ok\<close> stands for
  the checks of a bracketed host and of a non-ASCII network location.
\<close>

definition scheme_chars :: string where
  "scheme_chars = ''abcdefghijklmnopqrstuvwxyzABCDEFGHIJKLMNOPQRSTUVWXYZ0123456789+-.''"

definition uses_params :: "string list" where
  "uses_params = [[], ''ftp'', ''hdl'', ''prospero'', ''http'', ''imap'', ''https'', ''shttp'',
     ''rtsp'', ''rtsps'', ''rtspu'', ''sip'', ''sips'', ''mms'', ''sftp'', ''tel'']"

definition is_ascii_alpha :: "char \<Rightarrow> bool" where
  "is_ascii_alpha c = (c \<in> set ''abcdefghijklmnopqrstuvwxyzABCDEFGHIJKLMNOPQRSTUVWXYZ'')"

definition split_scheme :: "string \<Rightarrow> string \<times> string" where
  "split_scheme u =
     (case index_of CHR '':'' u of
        None \<Rightarrow> ([], u)
      | Some i \<Rightarrow>
          if 0 < i \<and> is_ascii_alpha (hd u) \<and> list_all (\<lambda>c. c \<in> set scheme_chars) (take i u)
          then (map ascii_lower (take i u), drop (Suc i) u)
          else ([], u))"

definition netloc_delim :: "char \<Rightarrow> bool" where
  "netloc_delim c = (c = CHR ''/'' \<or> c = CHR ''?'' \<or> c = CHR ''#'')"

definition check_netloc :: "(string \<Rightarrow> bool) \<Rightarrow> string \<Rightarrow> error option" where
  "check_netloc netloc_ok netloc =
     (if (CHR ''['' \<in> set netloc \<and> CHR '']'' \<notin> set netloc)
         \<or> (CHR '']'' \<in> set netloc \<and> CHR ''['' \<notin> set netloc)
      then Some (ValueError ''Invalid IPv6 URL'')
      else if ((CHR ''['' \<in> set netloc \<and> CHR '']'' \<in> set netloc)
               \<or> (\<exists>c \<in> set netloc. (128::nat) \<le> of_char c))
              \<and> \<not> netloc_ok netloc
      then Some (ValueError ''invalid netloc'')
      else None)"

definition urlsplit :: "(string \<Rightarrow> bool) \<Rightarrow> string \<Rightarrow> error + string \<times> string" where
  "urlsplit netloc_ok u =
     (let u1 = dropWhile (\<lambda>c. (of_char c :: nat) \<le> 32) u;
          u2 = filter (\<lambda>c. c \<noteq> CHR 0x09 \<and> c \<noteq> CHR 0x0D \<and> c \<noteq> CHR 0x0A) u1;
          (scheme, u3) = split_scheme u2;
          (netloc, u4) =
            (if take 2 u3 = ''//''
             then (takeWhile (\<lambda>c. \<not> netloc_delim c) (drop 2 u3),
                   dropWhile (\<lambda>c. \<not> netloc_delim c) (drop 2 u3))
             else ([], u3))
      in case check_netloc netloc_ok netloc of
           Some e \<Rightarrow> Inl e
         | None \<Rightarrow>
             Inr (scheme,
                  takeWhile (\<lambda>c. c \<noteq> CHR ''?'') (takeWhile (\<lambda>c. c \<noteq> CHR ''#'') u4)))"

definition splitparams :: "string \<Rightarrow> string" where
  "splitparams p =
     (if CHR ''/'' \<in> set p
      then (case rpartition CHR ''/'' p of
              (h, sep, t) \<Rightarrow> h @ sep @ takeWhile (\<lambda>c. c \<noteq> CHR '';'') t)
      else takeWhile (\<lambda>c. c \<noteq> CHR '';'') p)"

definition urlparse :: "(string \<Rightarrow> bool) \<Rightarrow> string \<Rightarrow> error + string \<times> string" where
  "urlparse netloc_ok u =
     (case urlsplit netloc_ok u of
        Inl e \<Rightarrow> Inl e
      | Inr (scheme, p) \<Rightarrow>
          if scheme \<in> set uses_params \<and> CHR '';'' \<in> set p then Inr (scheme, splitparams p)
          else Inr (scheme, p))"

definition std_urlparse_path :: "(string \<Rightarrow> bool) \<Rightarrow> string \<Rightarrow> error + string" where
  "std_urlparse_path netloc_ok u =
     (case urlparse netloc_ok u of Inl e \<Rightarrow> Inl e | Inr (scheme, p) \<Rightarrow> Inr p)"

text \<open>
  \<^verbatim>\<open>mimetypes.guess_type(u)[0]\<close>: a data URL has the type it names, any other name is
  looked up by its suffix, which is the parameter \<open>types\<close>.
\<close>

definition data_url_type :: "string \<Rightarrow> string option" where
  "data_url_type p =
     (if CHR '','' \<notin> set p then None
      else
        (let t = takeWhile (\<lambda>c. c \<noteq> CHR '';'') (takeWhile (\<lambda>c. c \<noteq> CHR '','') p)
         in Some (if CHR ''='' \<in> set t \<or> CHR ''/'' \<notin> set t then ''text/plain'' else t)))"

definition std_guess_type ::
  "(string \<Rightarrow> bool) \<Rightarrow> (string \<Rightarrow> string option) \<Rightarrow> string \<Rightarrow> error + string option" where
  "std_guess_type netloc_ok types u =
     (case urlparse netloc_ok u of
        Inl e \<Rightarrow> Inl e
      | Inr (scheme, p) \<Rightarrow>
          if 1 < length scheme then
            (if scheme = ''data'' then Inr (data_url_type p) else Inr (types p))
          else Inr (types u))"

definition cpython ::
  "(string \<Rightarrow> bool) \<Rightarrow> (string \<Rightarrow> string option) \<Rightarrow> (string \<Rightarrow> string option) \<Rightarrow> string \<Rightarrow> library" where
  "cpython netloc_ok types extensions token =
     \<lparr>guess_type = std_guess_type netloc_ok types,
      guess_extension = extensions,
      urlparse_path = std_urlparse_path netloc_ok,
      urlopen_read = std_urlopen_read,
      uuid = token\<rparr>"

subsection \<open>Filenames, data URIs and \<^verbatim>\<open>ensure_resource\<close>\<close>

definition guess_mimetype_from_data :: "bytes \<Rightarrow> string option" where
  "guess_mimetype_from_data data =
     (if startswith data ([0x89] @ ascii ''PNG'' @ [0x0D, 0x0A, 0x1A, 0x0A]) then Some ''image/png''
      else if startswith (drop 6 data) (ascii ''Exif'') \<or> startswith (drop 6 data) (ascii ''JFIF'')
        then Some ''image/jpeg''
      else if startswith data (ascii ''GIF87a'') \<or> startswith data (ascii ''GIF89a'')
        then Some ''image/gif''
      else if startswith data (ascii ''RIFF'') \<and> startswith (drop 8 data) (ascii ''WEBP'')
        then Some ''image/webp''
      else None)"

definition generate_filename_from_details ::
  "library \<Rightarrow> string option \<Rightarrow> string option \<Rightarrow> bytes option \<Rightarrow> string" where
  "generate_filename_from_details lib mimetype ext data =
     (let mimetype1 =
            (case (data, mimetype) of
               (Some d, None) \<Rightarrow> guess_mimetype_from_data d
             | _ \<Rightarrow> mimetype);
          extension1 =
            (case (ext, mimetype1) of
               (None, Some m) \<Rightarrow> guess_file_extension lib m
             | _ \<Rightarrow> ext);
          extension2 =
            (case extension1 of
               None \<Rightarrow> []
             | Some e \<Rightarrow> if e = [] then [] else if \<not> startswith e ''.'' then ''.'' @ e else e)
      in uuid lib @ extension2)"

definition to_data_uri :: "bytes \<Rightarrow> string option \<Rightarrow> error + string" where
  "to_data_uri data mimetype =
     (case mimetype of
        None \<Rightarrow>
          (case guess_mimetype_from_data data of
             None \<Rightarrow> Inl (TypeError ''Cannot infer mimetype from input data, specify it manually.'')
           | Some m \<Rightarrow> Inr (''data:'' @ m @ '';base64,'' @ b64encode data))
      | Some m \<Rightarrow> Inr (''data:'' @ m @ '';base64,'' @ b64encode data))"

text \<open>
  \<^verbatim>\<open>Bytes.from_data_uri\<close>: whatever the library raises while it opens, guesses and
  reads becomes the \<^verbatim>\<open>ValueError\<close> of a failed decoding.
\<close>

definition from_data_uri :: "library \<Rightarrow> string \<Rightarrow> string option \<Rightarrow> error + resource" where
  "from_data_uri lib data_uri fname =
     (if \<not> startswith data_uri ''data:'' then Inl (ValueError ''Invalid data URI passed'')
      else
        (case urlopen_read lib data_uri of
           Inl ex \<Rightarrow> Inl (ValueError ''Failed to decode data URI'')
         | Inr data \<Rightarrow>
             (case guess_type lib data_uri of
                Inl ex \<Rightarrow> Inl (ValueError ''Failed to decode data URI'')
              | Inr mimetype \<Rightarrow>
                  Bytes_init lib (RawArg (RBytes data))
                    (case fname of
                       None \<Rightarrow> generate_filename_from_details lib mimetype None (Some data)
                     | Some f \<Rightarrow> f)
                    mimetype False)))"

text \<open>
  The argument of \<^verbatim>\<open>ensure_resource\<close>: a resource, a raw value, or a string or path-like
  object, of which \<^verbatim>\<open>str(x)\<close> is kept.
\<close>

datatype resourceish = AResource resource | ARaw rawish | APath string

definition ensure_resource :: "library \<Rightarrow> resourceish \<Rightarrow> error + resource" where
  "ensure_resource lib url_or_resource =
     (case url_or_resource of
        AResource r \<Rightarrow> Inr r
      | ARaw raw \<Rightarrow>
          (let data = unwrap_bytes raw;
               fname = generate_filename_from_details lib None None (Some data)
           in Bytes_init lib (RawArg (RBytes data)) fname None False)
      | APath u \<Rightarrow>
          (if startswith u ''https://'' \<or> startswith u ''http://'' then Inr (URL_init u None)
           else if startswith u ''data:'' then
             (case from_data_uri lib u None of
                Inr r \<Rightarrow> Inr r
              | Inl (ValueError m) \<Rightarrow> Inr (File_init u (Some (path_name (ensure_path u))) False)
              | Inl e \<Rightarrow> Inl e)
           else Inr (File_init u (Some (path_name (ensure_path u))) False)))"

subsection \<open>The file system\<close>

text \<open>
  The file system maps the string of a path, as it is passed to the system calls, to
  what is there. \<open>homes\<close> gives the home directory of a user, of the current one for
  the empty name.
\<close>

datatype node = RegularFile bytes | Directory

type_synonym filesystem = "string \<rightharpoonup> node"

fun join_with :: "string \<Rightarrow> string list \<Rightarrow> string" where
  "join_with sep [] = []"
| "join_with sep [x] = x"
| "join_with sep (x # y # ys) = x @ sep @ join_with sep (y # ys)"

definition path_str :: "path \<Rightarrow> string" where
  "path_str p = (let s = root p @ join_with ''/'' (tail p) in if s = [] then ''.'' else s)"

definition is_dir :: "filesystem \<Rightarrow> path \<Rightarrow> bool" where
  "is_dir fs p = (fs (path_str p) = Some Directory)"

definition path_exists :: "filesystem \<Rightarrow> path \<Rightarrow> bool" where
  "path_exists fs p = (fs (path_str p) \<noteq> None)"

definition posix_join :: "string \<Rightarrow> string \<Rightarrow> string" where
  "posix_join a b =
     (if startswith b ''/'' then b
      else if a = [] \<or> take 1 (rev a) = ''/'' then a @ b
      else a @ ''/'' @ b)"

definition joinpath :: "path \<Rightarrow> string \<Rightarrow> path" where
  "joinpath p name = ensure_path (posix_join (path_str p) name)"

definition posix_expanduser :: "(string \<Rightarrow> string option) \<Rightarrow> string \<Rightarrow> string" where
  "posix_expanduser homes s =
     (case homes (drop 1 s) of
        None \<Rightarrow> s
      | Some userhome \<Rightarrow>
          (let h = rev (dropWhile (\<lambda>c. c = CHR ''/'') (rev userhome))
           in if h = [] then ''/'' else h))"

definition expanduser :: "(string \<Rightarrow> string option) \<Rightarrow> path \<Rightarrow> error + path" where
  "expanduser homes p =
     (if root p = [] \<and> tail p \<noteq> [] \<and> take 1 (hd (tail p)) = ''~'' then
        (let homedir = posix_expanduser homes (hd (tail p))
         in if take 1 homedir = ''~'' then Inl (RuntimeError ''Could not determine home directory.'')
            else Inr (Path (root (ensure_path homedir)) (tail (ensure_path homedir) @ tl (tail p))))
      else Inr p)"

text \<open>\<^verbatim>\<open>_open_read_path\<close>: the open file is what is left to read.\<close>

definition open_read_path ::
  "(string \<Rightarrow> string option) \<Rightarrow> filesystem \<Rightarrow> path \<Rightarrow> error + bytes" where
  "open_read_path homes fs p =
     (case expanduser homes p of
        Inl e \<Rightarrow> Inl e
      | Inr q \<Rightarrow>
          (case fs (path_str q) of
             None \<Rightarrow> Inl (FileNotFoundError (path_str q))
           | Some Directory \<Rightarrow> Inl (IsADirectoryError (path_str q))
           | Some (RegularFile content) \<Rightarrow> Inr content))"

text \<open>\<^verbatim>\<open>_to_write_path\<close>, and \<^verbatim>\<open>open(path, "wb")\<close>, which creates or empties the file.\<close>

definition to_write_path ::
  "(string \<Rightarrow> string option) \<Rightarrow> filesystem \<Rightarrow> string \<Rightarrow> string \<Rightarrow> bool \<Rightarrow> error + path" where
  "to_write_path homes fs target default_filename force =
     (let p = ensure_path target;
          p1 = (if is_dir fs p then joinpath p default_filename else p)
      in if \<not> force \<and> path_exists fs p1 then Inl (FileExistsError (path_str p1))
         else expanduser homes p1)"

definition open_wb :: "filesystem \<Rightarrow> path \<Rightarrow> error + filesystem" where
  "open_wb fs p =
     (if fs (path_str p) = Some Directory then Inl (IsADirectoryError (path_str p))
      else Inr (fs(path_str p \<mapsto> RegularFile [])))"

definition open_write_path ::
  "(string \<Rightarrow> string option) \<Rightarrow> filesystem \<Rightarrow> string \<Rightarrow> string \<Rightarrow> bool
   \<Rightarrow> error + path \<times> filesystem" where
  "open_write_path homes fs target default_filename force =
     (case to_write_path homes fs target default_filename force of
        Inl e \<Rightarrow> Inl e
      | Inr p \<Rightarrow> (case open_wb fs p of Inl e \<Rightarrow> Inl e | Inr fs1 \<Rightarrow> Inr (p, fs1)))"

text \<open>\<^verbatim>\<open>_write_bytes\<close> and \<^verbatim>\<open>_copy_to_path\<close>, with \<^verbatim>\<open>shutil.copy2\<close> for the contents.\<close>

definition write_bytes ::
  "(string \<Rightarrow> string option) \<Rightarrow> filesystem \<Rightarrow> string \<Rightarrow> string \<Rightarrow> bytes \<Rightarrow> bool
   \<Rightarrow> error + filesystem" where
  "write_bytes homes fs target default_filename data force =
     (case to_write_path homes fs target default_filename force of
        Inl e \<Rightarrow> Inl e
      | Inr p \<Rightarrow>
          (case open_wb fs p of
             Inl e \<Rightarrow> Inl e
           | Inr fs1 \<Rightarrow> Inr (fs1(path_str p \<mapsto> RegularFile data))))"

definition copy2 :: "filesystem \<Rightarrow> string \<Rightarrow> string \<Rightarrow> error + filesystem" where
  "copy2 fs src dst =
     (let dst1 = (if fs dst = Some Directory then posix_join dst (basename src) else dst)
      in if dst1 = src then Inl (SameFileError src)
         else
           (case fs src of
              None \<Rightarrow> Inl (FileNotFoundError src)
            | Some Directory \<Rightarrow> Inl (IsADirectoryError src)
            | Some (RegularFile content) \<Rightarrow>
                if fs dst1 = Some Directory then Inl (IsADirectoryError dst1)
                else Inr (fs(dst1 \<mapsto> RegularFile content))))"

definition copy_to_path ::
  "(string \<Rightarrow> string option) \<Rightarrow> filesystem \<Rightarrow> path \<Rightarrow> string \<Rightarrow> string \<Rightarrow> bool
   \<Rightarrow> error + filesystem" where
  "copy_to_path homes fs current_path target default_filename force =
     (case to_write_path homes fs target default_filename force of
        Inl e \<Rightarrow> Inl e
      | Inr p \<Rightarrow> copy2 fs (path_str current_path) (path_str p))"

subsection \<open>The reader of in-memory data\<close>

text \<open>
  A generator that has run to its end is the list of what it yielded and how it ended:
  \<open>None\<close> for a normal end, \<open>Some e\<close> for the exception that left it.
\<close>

type_synonym 'a generated = "'a list \<times> error option"

fun assert_bytes :: "chunk \<Rightarrow> error + bytes" where
  "assert_bytes (StrChunk s) = Inr (utf8_encode s)"
| "assert_bytes (BytesChunk b) = Inr b"
| "assert_bytes (OtherChunk t) = Inl (TypeError (''Expected bytes but received '' @ t))"

text \<open>The loops of \<^verbatim>\<open>_wrap_iter\<close> over a lazy source: they stop at the first exception.\<close>

fun assert_each :: "chunk list \<Rightarrow> bytes generated" where
  "assert_each [] = ([], None)"
| "assert_each (c # cs) =
     (case assert_bytes c of
        Inl e \<Rightarrow> ([], Some e)
      | Inr b \<Rightarrow> (case assert_each cs of (ys, r) \<Rightarrow> (b # ys, r)))"

text \<open>\<^verbatim>\<open>range(0, n, step)\<close> and the slices \<^verbatim>\<open>data[i : i + _MAGIC]\<close>.\<close>

definition range_step :: "nat \<Rightarrow> nat \<Rightarrow> nat list" where
  "range_step n step = map (\<lambda>k. k * step) [0 ..< (n + step - 1) div step]"

definition slices :: "bytes \<Rightarrow> bytes list" where
  "slices d = map (\<lambda>i. take MAGIC (drop i d)) (range_step (length d) MAGIC)"

fun wrap_iter :: "payload \<Rightarrow> bytes generated" where
  "wrap_iter (RawBytes d) = (slices d, None)"
| "wrap_iter (Lazy AsyncIterator cs) = assert_each cs"
| "wrap_iter (Lazy SyncIterator cs) = assert_each cs"
| "wrap_iter (Lazy Generator cs) = assert_each cs"
| "wrap_iter (Lazy Iterable cs) = assert_each cs"
| "wrap_iter (Lazy AsyncIterable cs) = assert_each cs"
| "wrap_iter (NotIterable t) =
     (case assert_bytes (OtherChunk t) of Inl e \<Rightarrow> ([], Some e) | Inr b \<Rightarrow> ([], None))"

text \<open>
  \<^verbatim>\<open>IteratorReader.__aiter__\<close>: the buffer, what the wrapped iterator still yields and
  how it ends. The inner loop takes chunks while the buffer is short of \<^verbatim>\<open>_MAGIC\<close>;
  \<^verbatim>\<open>StopAsyncIteration\<close> leaves both loops and the rest of the buffer is yielded;
  any other exception leaves the generator.
\<close>

function aiter_loop :: "bytes \<Rightarrow> bytes list \<Rightarrow> error option \<Rightarrow> bytes generated" where
  "aiter_loop buff items ending =
     (if length buff < MAGIC then
        (case items of
           [] \<Rightarrow>
             (case ending of
                None \<Rightarrow> (if buff \<noteq> [] then [buff] else [], None)
              | Some e \<Rightarrow> ([], Some e))
         | c # cs \<Rightarrow> aiter_loop (buff @ c) cs ending)
      else (case aiter_loop [] items ending of (ys, r) \<Rightarrow> (buff # ys, r)))"
  by pat_completeness auto
termination
  by (relation "measure (\<lambda>(buff, items, ending).
        2 * length items + (if length buff < MAGIC then 0 else 1))")
     (auto simp: MAGIC_def)

definition IteratorReader_aiter :: "payload \<Rightarrow> bytes generated" where
  "IteratorReader_aiter d = (case wrap_iter d of (items, ending) \<Rightarrow> aiter_loop [] items ending)"

text \<open>\<^verbatim>\<open>AsyncReader.read\<close>: all chunks in one buffer.\<close>

definition read_all :: "bytes generated \<Rightarrow> error + bytes" where
  "read_all g = (case g of (ys, None) \<Rightarrow> Inr (concat ys) | (ys, Some e) \<Rightarrow> Inl e)"

subsection \<open>Readers and handles\<close>

datatype executor = ThreadPoolExecutor | OtherExecutor

text \<open>What \<^verbatim>\<open>aiohttp\<close> reports of a response; \<open>content\<close> is what \<^verbatim>\<open>readchunk\<close> returns.\<close>

record response =
  status :: nat
  reason :: string
  real_url :: string
  content_disposition :: "string option option"
  content_type :: string
  charset :: "string option"
  content_length :: "nat option"
  content :: "bytes list"

record web_reader =
  wr_filename :: string
  wr_mimetype :: "string option"
  wr_stream :: "bytes list"
  wr_url :: string
  wr_status :: nat
  wr_reason :: string
  wr_charset :: "string option"
  wr_size :: "nat option"
  wr_head_only :: bool

datatype reader =
    ThreadedFileReader string "string option" "executor option" bytes
  | IteratorReader string "string option" payload
  | WebReader web_reader

text \<open>
  \<^verbatim>\<open>ThreadedFileReader.__aiter__\<close> reads \<^verbatim>\<open>_MAGIC\<close> bytes at a time and stops after a
  short read.
\<close>

function file_chunks :: "bytes \<Rightarrow> bytes list" where
  "file_chunks pointer =
     (if length (take MAGIC pointer) < MAGIC then [take MAGIC pointer]
      else take MAGIC pointer # file_chunks (drop MAGIC pointer))"
  by pat_completeness auto
termination
  by (relation "measure length") (auto simp: MAGIC_def)

fun reader_chunks :: "reader \<Rightarrow> bytes generated" where
  "reader_chunks (ThreadedFileReader fn m ex pointer) = (file_chunks pointer, None)"
| "reader_chunks (IteratorReader fn m d) = IteratorReader_aiter d"
| "reader_chunks (WebReader r) = (if wr_head_only r then [[]] else wr_stream r, None)"

text \<open>
  The three context managers. In \<^verbatim>\<open>_WebReaderAsyncReaderContextManagerImpl\<close> the two
  slots hold \<^verbatim>\<open>NotImplemented\<close> until the handle is entered: that is \<open>None\<close> here.
\<close>

record file_cm =
  cm_executor :: "executor option"
  cm_file :: "bytes option"
  cm_filename :: string
  cm_path :: path

record web_cm =
  cm_web_resource :: resource
  cm_head_only :: bool
  cm_client_session :: "unit option"
  cm_client_response_ctx :: "response option"

datatype handle = FileCM file_cm | NoOpCM reader | WebCM web_cm

text \<open>
  What a handle meets when it is entered: the file system, the home directories, the
  answer of the server to a request (by method and URL), and
  \<^verbatim>\<open>net.generate_error_response\<close>, which is not part of the module.
\<close>

record world =
  files :: filesystem
  homes :: "string \<Rightarrow> string option"
  http :: "string \<Rightarrow> string \<Rightarrow> error + response"
  generate_error_response :: "response \<Rightarrow> error"

fun stream :: "resource \<Rightarrow> executor option \<Rightarrow> bool \<Rightarrow> error + handle" where
  "stream (URL u fn) ex head_only =
     Inr (WebCM \<lparr>cm_web_resource = URL u fn, cm_head_only = head_only,
                 cm_client_session = None, cm_client_response_ctx = None\<rparr>)"
| "stream (File p fn spoiler) ex head_only =
     (if ex = None \<or> ex = Some ThreadPoolExecutor
      then Inr (FileCM \<lparr>cm_executor = ex, cm_file = None,
                         cm_filename = File_filename p fn spoiler, cm_path = p\<rparr>)
      else Inl (TypeError ''The executor must be a ThreadPoolExecutor or None''))"
| "stream (Bytes d fn m spoiler) ex head_only =
     Inr (NoOpCM (IteratorReader (Bytes_filename fn spoiler) m d))"

fun aenter :: "library \<Rightarrow> world \<Rightarrow> handle \<Rightarrow> error + handle \<times> reader" where
  "aenter lib w (FileCM cm) =
     (if cm_file cm \<noteq> None then Inl (RuntimeError ''File is already open'')
      else
        (case open_read_path (homes w) (files w) (cm_path cm) of
           Inl e \<Rightarrow> Inl e
         | Inr file \<Rightarrow>
             Inr (FileCM (cm\<lparr>cm_file := Some file\<rparr>),
                  ThreadedFileReader (cm_filename cm) None (cm_executor cm) file)))"
| "aenter lib w (NoOpCM impl) = Inr (NoOpCM impl, impl)"
| "aenter lib w (WebCM cm) =
     (case http w (if cm_head_only cm then ''HEAD'' else ''GET'') (url (cm_web_resource cm)) of
        Inl ex \<Rightarrow> Inl ex
      | Inr resp \<Rightarrow>
          if \<not> (200 \<le> status resp \<and> status resp < 400) then Inl (generate_error_response w resp)
          else
            (case filename lib (cm_web_resource cm) of
               Inl ex \<Rightarrow> Inl ex
             | Inr fn \<Rightarrow>
                 Inr (WebCM (cm\<lparr>cm_client_response_ctx := Some resp, cm_client_session := Some ()\<rparr>),
                      WebReader
                        \<lparr>wr_filename = fn,
                         wr_mimetype =
                           (case content_disposition resp of
                              Some (Some t) \<Rightarrow> Some t
                            | _ \<Rightarrow> Some (content_type resp)),
                         wr_stream = content resp, wr_url = real_url resp,
                         wr_status = status resp, wr_reason = reason resp,
                         wr_charset = charset resp, wr_size = content_length resp,
                         wr_head_only = cm_head_only cm\<rparr>)))"

fun aexit :: "handle \<Rightarrow> error + handle" where
  "aexit (FileCM cm) =
     (if cm_file cm = None then Inl (RuntimeError (''File isn'' @ [CHR 0x27] @ ''t open''))
      else Inr (FileCM (cm\<lparr>cm_file := None\<rparr>)))"
| "aexit (NoOpCM impl) = Inr (NoOpCM impl)"
| "aexit (WebCM cm) =
     (case cm_client_response_ctx cm of
        None \<Rightarrow> Inl (AttributeError ''__aexit__'')
      | Some ctx \<Rightarrow> Inr (WebCM cm))"

subsection \<open>Saving\<close>

text \<open>
  \<^verbatim>\<open>Resource.save\<close> opens the target, then the stream, and writes chunk by chunk; the
  target keeps what was written when the stream fails. \<^verbatim>\<open>File.save\<close> copies the file
  and \<^verbatim>\<open>Bytes.save\<close> writes a flat buffer at once. The result is the outcome and the
  file system after the call.
\<close>

definition Resource_save ::
  "library \<Rightarrow> world \<Rightarrow> resource \<Rightarrow> string \<Rightarrow> executor option \<Rightarrow> bool
   \<Rightarrow> (error + unit) \<times> filesystem" where
  "Resource_save lib w self target ex force =
     (case filename lib self of
        Inl e \<Rightarrow> (Inl e, files w)
      | Inr fn \<Rightarrow>
          (case open_write_path (homes w) (files w) target fn force of
             Inl e \<Rightarrow> (Inl e, files w)
           | Inr (p, fs1) \<Rightarrow>
               (case stream self ex False of
                  Inl e \<Rightarrow> (Inl e, fs1)
                | Inr h \<Rightarrow>
                    (case aenter lib (w\<lparr>files := fs1\<rparr>) h of
                       Inl e \<Rightarrow> (Inl e, fs1)
                     | Inr (h1, reader) \<Rightarrow>
                         (case reader_chunks reader of
                            (written, ending) \<Rightarrow>
                              ((case ending of
                                  Some e \<Rightarrow> Inl e
                                | None \<Rightarrow> (case aexit h1 of Inl e \<Rightarrow> Inl e | Inr h2 \<Rightarrow> Inr ())),
                               fs1(path_str p \<mapsto> RegularFile (concat written))))))))"

fun save ::
  "library \<Rightarrow> world \<Rightarrow> resource \<Rightarrow> string \<Rightarrow> executor option \<Rightarrow> bool
   \<Rightarrow> (error + unit) \<times> filesystem" where
  "save lib w (File p fn spoiler) target ex force =
     (case copy_to_path (homes w) (files w) p target (File_filename p fn spoiler) force of
        Inl e \<Rightarrow> (Inl e, files w)
      | Inr fs1 \<Rightarrow> (Inr (), fs1))"
| "save lib w (Bytes (RawBytes data) fn m spoiler) target ex force =
     (case write_bytes (homes w) (files w) target (Bytes_filename fn spoiler) data force of
        Inl e \<Rightarrow> (Inl e, files w)
      | Inr fs1 \<Rightarrow> (Inr (), fs1))"
| "save lib w self target ex force = Resource_save lib w self target ex force"

subsection \<open>Classifying chunks, and instances to run the module on\<close>

text \<open>A chunk that is neither \<^verbatim>\<open>bytes\<close> nor \<^verbatim>\<open>str\<close>, and the bytes a chunk stands for.\<close>

fun is_other :: "chunk \<Rightarrow> bool" where
  "is_other (OtherChunk t) = True"
| "is_other (BytesChunk b) = False"
| "is_other (StrChunk s) = False"

fun chunk_bytes :: "chunk \<Rightarrow> bytes" where
  "chunk_bytes (BytesChunk b) = b"
| "chunk_bytes (StrChunk s) = utf8_encode s"
| "chunk_bytes (OtherChunk t) = []"

text \<open>
  A hash of the pair of class and URL that tells the classes apart, a library with a
  two-line table of types, and a world with one user and one URL that is served.
\<close>

definition class_hash :: "resource_class \<times> string \<Rightarrow> int" where
  "class_hash p =
     (case fst p of URL_class \<Rightarrow> 0 | File_class \<Rightarrow> 1 | Bytes_class \<Rightarrow> 2) + 3 * int (length (snd p))"

definition example_types :: "string \<Rightarrow> string option" where
  "example_types name =
     (if extension_of name = Some ''png'' then Some ''image/png''
      else if extension_of name = Some ''txt'' then Some ''text/plain''
      else None)"

definition example_extensions :: "string \<Rightarrow> string option" where
  "example_extensions mimetype =
     (if mimetype = ''image/png'' then Some ''.png''
      else if mimetype = ''text/plain'' then Some ''.txt''
      else None)"

definition example_library :: library where
  "example_library = cpython (\<lambda>netloc. False) example_types example_extensions ''18f3a9c2''"

definition example_response :: response where
  "example_response =
     \<lparr>status = 200, reason = ''OK'', real_url = ''https://example.com/a.png'',
      content_disposition = None, content_type = ''image/png'', charset = None,
      content_length = Some 3, content = [[1, 2], [3]]\<rparr>"

definition example_world :: "filesystem \<Rightarrow> world" where
  "example_world fs =
     \<lparr>files = fs,
      homes = (\<lambda>user. if user = [] then Some ''/home/user'' else None),
      http = (\<lambda>method u.
        if u = ''https://example.com/a.png'' then Inr example_response else Inl (URLError u)),
      generate_error_response = (\<lambda>resp. HTTPResponseError (status resp))\<rparr>"

section \<open>Properties\<close>

subsection \<open>The extension of a filename\<close>

lemma rpartition_last:
  assumes "c \<notin> set ext"
  shows "rpartition c (pre @ c # ext) = (pre, [c], ext)"
proof -
  from assms have t: "takeWhile (\<lambda>x. x \<noteq> c) (rev ext) = rev ext"
    by (auto simp: takeWhile_eq_all_conv)
  from assms have d: "dropWhile (\<lambda>x. x \<noteq> c) (rev ext) = []"
    by (auto simp: dropWhile_eq_Nil_conv)
  show ?thesis
    by (simp add: rpartition_def takeWhile_append dropWhile_append t d assms)
qed

lemma extension_of_dot:
  "CHR ''.'' \<notin> set ext \<Longrightarrow> extension_of (pre @ CHR ''.'' # ext) = Some ext"
  by (simp add: extension_of_def rpartition_last)

lemma extension_of_no_dot: "CHR ''.'' \<notin> set fn \<Longrightarrow> extension_of fn = None"
  by (simp add: extension_of_def rpartition_def)

lemma extension_of_none_iff: "extension_of fn = None \<longleftrightarrow> CHR ''.'' \<notin> set fn"
proof
  assume n: "extension_of fn = None"
  show "CHR ''.'' \<notin> set fn"
  proof
    assume "CHR ''.'' \<in> set fn"
    then obtain pre ext where "fn = pre @ CHR ''.'' # ext" "CHR ''.'' \<notin> set ext"
      by (meson split_list_last)
    with n show False by (simp add: extension_of_dot)
  qed
qed (rule extension_of_no_dot)

text \<open>
  C10. For a resource whose filename is \<open>fn\<close>, the extension is what follows the last
  dot of \<open>fn\<close>, the empty string when \<open>fn\<close> ends with a dot, and it is \<^verbatim>\<open>None\<close>
  exactly when \<open>fn\<close> has no dot.
\<close>

theorem extension_after_last_dot:
  assumes "filename lib r = Inr fn"
  shows "(fn = pre @ ''.'' @ ext \<and> CHR ''.'' \<notin> set ext \<longrightarrow> extension lib r = Inr (Some ext))
       \<and> (fn = pre @ ''.'' \<longrightarrow> extension lib r = Inr (Some []))
       \<and> (extension lib r = Inr None \<longleftrightarrow> CHR ''.'' \<notin> set fn)"
  using assms by (auto simp: extension_def extension_of_dot extension_of_none_iff)

theorem extension_after_last_dot_witness:
  "filename example_library (Bytes (RawBytes []) ''a.tar.gz'' None False) = Inr ''a.tar.gz''
   \<and> extension example_library (Bytes (RawBytes []) ''a.tar.gz'' None False) = Inr (Some ''gz'')
   \<and> extension example_library (Bytes (RawBytes []) ''a.'' None False) = Inr (Some [])
   \<and> extension example_library (Bytes (RawBytes []) ''Makefile'' None False) = Inr None"
  using extension_after_last_dot [of example_library "Bytes (RawBytes []) ''a.tar.gz'' None False"
      "''a.tar.gz''" "''a.tar''" "''gz''"]
    extension_after_last_dot [of example_library "Bytes (RawBytes []) ''a.'' None False" "''a.''" "''a''"]
    extension_after_last_dot [of example_library "Bytes (RawBytes []) ''Makefile'' None False" "''Makefile''"]
  by (simp add: Bytes_filename_def)

subsection \<open>Filenames and spoilers\<close>

text \<open>
  C7. The filename of a \<^verbatim>\<open>File\<close> or \<^verbatim>\<open>Bytes\<close> resource is a function of the
  arguments of its constructor alone (no library call, no state); with
  \<^verbatim>\<open>spoiler=True\<close> it is \<^verbatim>\<open>"SPOILER_"\<close> followed by the filename the resource has with
  \<^verbatim>\<open>spoiler=False\<close>, and the path or data is the same.
\<close>

theorem spoiler_filename:
  "(\<exists>f. filename lib (File_init p fn False) = Inr f
        \<and> filename lib (File_init p fn True) = Inr (''SPOILER_'' @ f))
   \<and> file_path (File_init p fn True) = file_path (File_init p fn False)
   \<and> filename lib' (File_init p fn sp) = filename lib (File_init p fn sp)
   \<and> (Bytes_init lib d name mt False = Inr r \<longrightarrow>
        (\<exists>r' f. Bytes_init lib d name mt True = Inr r'
           \<and> filename lib r = Inr f \<and> filename lib r' = Inr (''SPOILER_'' @ f)
           \<and> bytes_data r' = bytes_data r
           \<and> filename lib' r = filename lib r \<and> filename lib' r' = filename lib r'))"
  by (auto simp: File_init_def Bytes_init_def File_filename_def Bytes_filename_def SPOILER_TAG_def
      split: option.splits sum.splits)

theorem spoiler_filename_witness:
  "Bytes_init example_library (RawArg (RBytes [1, 2])) ''a.bin'' (Some ''x/y'') False
     = Inr (Bytes (RawBytes [1, 2]) ''a.bin'' (Some ''x/y'') False)
   \<and> (\<exists>r'. Bytes_init example_library (RawArg (RBytes [1, 2])) ''a.bin'' (Some ''x/y'') True = Inr r'
         \<and> filename example_library r' = Inr ''SPOILER_a.bin''
         \<and> bytes_data r' = RawBytes [1, 2])"
  using spoiler_filename [where lib = example_library and d = "RawArg (RBytes [1, 2])"
      and name = "''a.bin''" and mt = "Some ''x/y''"
      and r = "Bytes (RawBytes [1, 2]) ''a.bin'' (Some ''x/y'') False"]
  by (auto simp: Bytes_init_def Bytes_filename_def)

subsection \<open>The mimetype of in-memory data\<close>

text \<open>
  C9. A \<^verbatim>\<open>Bytes\<close> resource that has been constructed has a mimetype: the one given, or
  else the one guessed from the filename, or else \<^verbatim>\<open>"text/plain;charset=UTF-8"\<close>.
\<close>

theorem bytes_mimetype_never_none:
  "(Bytes_init lib d name mt sp = Inr r \<longrightarrow> bytes_mimetype r \<noteq> None)
   \<and> (mt = Some m \<longrightarrow>
        Bytes_init lib d name mt sp = Inr (Bytes (bytes_arg_payload d) name (Some m) sp))
   \<and> (mt = None \<and> guess_mimetype_from_filename lib name = Inr (Some m) \<and> m \<noteq> [] \<longrightarrow>
        Bytes_init lib d name mt sp = Inr (Bytes (bytes_arg_payload d) name (Some m) sp))
   \<and> (mt = None \<and> guess_mimetype_from_filename lib name = Inr None \<longrightarrow>
        Bytes_init lib d name mt sp
          = Inr (Bytes (bytes_arg_payload d) name (Some ''text/plain;charset=UTF-8'') sp))"
  by (auto simp: Bytes_init_def split: option.splits sum.splits)

lemma example_guesses:
  "guess_mimetype_from_filename example_library ''a.png'' = Inr (Some ''image/png'')"
  "guess_mimetype_from_filename example_library ''Makefile'' = Inr None"
  by code_simp+

theorem bytes_mimetype_never_none_witness:
  "Bytes_init example_library (RawArg (RBytes [])) ''a.png'' None False
     = Inr (Bytes (RawBytes []) ''a.png'' (Some ''image/png'') False)
   \<and> Bytes_init example_library (RawArg (RBytes [])) ''Makefile'' None False
     = Inr (Bytes (RawBytes []) ''Makefile'' (Some ''text/plain;charset=UTF-8'') False)
   \<and> Bytes_init example_library (RawArg (RBytes [])) ''Makefile'' (Some ''x/y'') False
     = Inr (Bytes (RawBytes []) ''Makefile'' (Some ''x/y'') False)
   \<and> bytes_mimetype (Bytes (RawBytes []) ''a.png'' (Some ''image/png'') False) \<noteq> None"
  using bytes_mimetype_never_none [of example_library "RawArg (RBytes [])" "''a.png''" None False
      "Bytes (RawBytes []) ''a.png'' (Some ''image/png'') False" "''image/png''"]
    bytes_mimetype_never_none [of example_library "RawArg (RBytes [])" "''Makefile''" None False
      "Bytes (RawBytes []) ''a.png'' (Some ''image/png'') False" "''image/png''"]
    bytes_mimetype_never_none [of example_library "RawArg (RBytes [])" "''Makefile''" "Some ''x/y''" False
      "Bytes (RawBytes []) ''a.png'' (Some ''image/png'') False" "''x/y''"]
  by (simp add: example_guesses)

subsection \<open>Equality and hashing\<close>

text \<open>
  C3, as amended. Two resources are equal exactly when their URLs are equal, and a
  resource is equal to no other object. The hash is Python's hash of the pair of the
  class and the URL: equal resources of the same class have the same hash.
\<close>

theorem resource_eq_hash:
  "(resource_eq r1 (ResourceObject r2) \<longleftrightarrow> url r1 = url r2)
   \<and> \<not> resource_eq r1 OtherObject
   \<and> resource_hash py_hash r1 = py_hash (class_of r1, url r1)
   \<and> (resource_eq r1 (ResourceObject r2) \<and> class_of r1 = class_of r2 \<longrightarrow>
        resource_hash py_hash r1 = resource_hash py_hash r2)"
  by (simp add: resource_hash_def)

lemma File_init_name:
  "File_init ''/tmp/a.txt'' None False = File (Path ''/'' [''tmp'', ''a.txt'']) None False
   \<and> File_init ''a.txt'' fn sp = File (Path [] [''a.txt'']) fn sp"
  by (simp add: File_init_def ensure_path_def path_root_def startswith_def)

theorem resource_eq_hash_witness:
  "resource_eq (File_init ''/tmp/a.txt'' None False)
     (ResourceObject (File_init ''a.txt'' (Some ''a.txt'') False))
   \<and> class_of (File_init ''/tmp/a.txt'' None False) = class_of (File_init ''a.txt'' (Some ''a.txt'') False)
   \<and> resource_hash class_hash (File_init ''/tmp/a.txt'' None False)
     = resource_hash class_hash (File_init ''a.txt'' (Some ''a.txt'') False)"
  using resource_eq_hash [of "File_init ''/tmp/a.txt'' None False"
      "File_init ''a.txt'' (Some ''a.txt'') False" class_hash]
  by (simp add: File_init_name File_filename_def path_name_def)

text \<open>
  The claim as stated fails: a \<^verbatim>\<open>File\<close> and a \<^verbatim>\<open>Bytes\<close> resource with the filename
  \<^verbatim>\<open>"a.txt"\<close> have the same URL and are equal, and their hashes differ for a hash
  function that tells the classes apart.
\<close>

theorem hash_depends_on_class:
  "resource_eq (File_init ''a.txt'' None False)
     (ResourceObject (Bytes (RawBytes []) ''a.txt'' (Some ''text/plain'') False))
   \<and> url (File_init ''a.txt'' None False) = url (Bytes (RawBytes []) ''a.txt'' (Some ''text/plain'') False)
   \<and> resource_hash class_hash (File_init ''a.txt'' None False)
     \<noteq> resource_hash class_hash (Bytes (RawBytes []) ''a.txt'' (Some ''text/plain'') False)"
  by (simp add: File_init_name File_filename_def Bytes_filename_def path_name_def
      resource_hash_def class_hash_def)


subsection \<open>Re-buffering in the reader of in-memory data\<close>

declare aiter_loop.simps [simp del]

lemma MAGIC_pos: "0 < MAGIC"
  by (simp add: MAGIC_def)

lemma aiter_loop_short_nil:
  "length buff < MAGIC \<Longrightarrow>
   aiter_loop buff [] ending =
     (case ending of None \<Rightarrow> (if buff \<noteq> [] then [buff] else [], None) | Some e \<Rightarrow> ([], Some e))"
  by (subst aiter_loop.simps) simp

lemma aiter_loop_short_cons:
  "length buff < MAGIC \<Longrightarrow> aiter_loop buff (c # cs) ending = aiter_loop (buff @ c) cs ending"
  by (subst aiter_loop.simps) simp

lemma aiter_loop_full:
  "MAGIC \<le> length buff \<Longrightarrow>
   aiter_loop buff items ending
     = (buff # fst (aiter_loop [] items ending), snd (aiter_loop [] items ending))"
  by (subst aiter_loop.simps) (simp add: split_beta)

text \<open>Every yielded chunk but the last one holds at least \<^verbatim>\<open>_MAGIC\<close> bytes.\<close>

lemma aiter_loop_min:
  "Suc i < length (fst (aiter_loop buff items ending)) \<Longrightarrow>
   MAGIC \<le> length (fst (aiter_loop buff items ending) ! i)"
proof (induction buff items ending arbitrary: i rule: aiter_loop.induct)
  case (1 buff items ending)
  show ?case
  proof (cases "length buff < MAGIC")
    case short: True
    show ?thesis
    proof (cases items)
      case Nil
      with short "1.prems" show ?thesis
        by (auto simp: aiter_loop_short_nil split: option.splits if_splits)
    next
      case (Cons c cs)
      with short "1.prems" "1.IH"(1) [OF short Cons, of i] show ?thesis
        by (simp add: aiter_loop_short_cons)
    qed
  next
    case False
    then have full: "MAGIC \<le> length buff" by simp
    show ?thesis
    proof (cases i)
      case 0
      with full show ?thesis by (simp add: aiter_loop_full)
    next
      case (Suc j)
      with full "1.prems" "1.IH"(2) [OF False, of j] show ?thesis
        by (simp add: aiter_loop_full)
    qed
  qed
qed

text \<open>A yielded chunk is the buffer, short of \<^verbatim>\<open>_MAGIC\<close>, and one more source chunk.\<close>

lemma aiter_loop_max:
  "length buff < MAGIC + m \<Longrightarrow> \<forall>c \<in> set items. length c \<le> m \<Longrightarrow>
   y \<in> set (fst (aiter_loop buff items ending)) \<Longrightarrow> length y < MAGIC + m"
proof (induction buff items ending rule: aiter_loop.induct)
  case (1 buff items ending)
  show ?case
  proof (cases "length buff < MAGIC")
    case short: True
    show ?thesis
    proof (cases items)
      case Nil
      with short "1.prems" show ?thesis
        by (auto simp: aiter_loop_short_nil split: option.splits if_splits)
    next
      case (Cons c cs)
      with short "1.prems" have "length (buff @ c) < MAGIC + m" by auto
      with short Cons "1.prems" "1.IH"(1) [OF short Cons] show ?thesis
        by (simp add: aiter_loop_short_cons)
    qed
  next
    case False
    then have full: "MAGIC \<le> length buff" by simp
    have "length ([]::bytes) < MAGIC + m" by (simp add: MAGIC_pos)
    with full "1.prems" "1.IH"(2) [OF False] show ?thesis
      by (auto simp: aiter_loop_full)
  qed
qed

lemma aiter_loop_ending: "snd (aiter_loop buff items ending) = ending"
proof (induction buff items ending rule: aiter_loop.induct)
  case (1 buff items ending)
  show ?case
  proof (cases "length buff < MAGIC")
    case True
    with "1.IH"(1) show ?thesis
      by (cases items) (auto simp: aiter_loop_short_nil aiter_loop_short_cons split: option.splits)
  next
    case False
    with "1.IH"(2) show ?thesis by (simp add: aiter_loop_full)
  qed
qed

lemma aiter_loop_concat: "concat (fst (aiter_loop buff items None)) = buff @ concat items"
proof (induction buff items "None :: error option" rule: aiter_loop.induct)
  case (1 buff items)
  show ?case
  proof (cases "length buff < MAGIC")
    case True
    with "1.hyps"(1) show ?thesis
      by (cases items) (auto simp: aiter_loop_short_nil aiter_loop_short_cons)
  next
    case False
    with "1.hyps"(2) show ?thesis by (simp add: aiter_loop_full)
  qed
qed

text \<open>The slices of a flat buffer, by recursion, and what the reader makes of them.\<close>

lemma range_step_small:
  assumes "0 < n" "n \<le> m"
  shows "range_step n m = [0]"
proof -
  from assms have e: "n + m - 1 = (n - 1) + m" by simp
  from assms have z: "(n - 1) div m = 0" by simp
  from assms have "m \<noteq> 0" by simp
  then have "((n - 1) + m) div m = (n - 1) div m + 1" by (rule div_add_self2)
  with e z have "(n + m - 1) div m = 1" by (simp only:)
  then show ?thesis by (simp add: range_step_def)
qed

lemma range_step_large:
  assumes "0 < m" "m < n"
  shows "range_step n m = 0 # map (\<lambda>i. i + m) (range_step (n - m) m)"
proof -
  from assms have e: "n + m - 1 = (n - m + m - 1) + m" by simp
  from assms have "m \<noteq> 0" by simp
  then have "((n - m + m - 1) + m) div m = (n - m + m - 1) div m + 1" by (rule div_add_self2)
  with e have q: "(n + m - 1) div m = Suc ((n - m + m - 1) div m)" by (simp only: Suc_eq_plus1)
  have u: "[0 ..< Suc q] = 0 # map Suc [0 ..< q]" for q
    by (simp only: map_Suc_upt upt_conv_Cons [of 0 "Suc q"] zero_less_Suc)
  have "map (\<lambda>k. k * m) [0 ..< Suc q] = 0 # map (\<lambda>i. i + m) (map (\<lambda>k. k * m) [0 ..< q])" for q
    unfolding u by (simp add: comp_def)
  with q show ?thesis by (simp add: range_step_def del: upt_Suc)
qed

lemma slices_rec:
  "slices d = (if d = [] then [] else take MAGIC d # slices (drop MAGIC d))"
proof (cases "d = []")
  case True
  then show ?thesis by (simp add: slices_def range_step_def MAGIC_def)
next
  case False
  show ?thesis
  proof (cases "length d \<le> MAGIC")
    case True
    with False show ?thesis
      by (simp add: slices_def range_step_small) (simp add: range_step_def MAGIC_def)
  next
    case False
    then have "MAGIC < length d" by simp
    with \<open>d \<noteq> []\<close> show ?thesis
      by (simp add: slices_def range_step_large MAGIC_pos comp_def add.commute)
  qed
qed

lemma aiter_loop_slices: "aiter_loop [] (slices d) None = (slices d, None)"
proof (induction "length d" arbitrary: d rule: less_induct)
  case less
  show ?case
  proof (cases "d = []")
    case True
    then show ?thesis
      by (simp add: slices_rec [of "[]"] aiter_loop_short_nil MAGIC_pos)
  next
    case False
    note ne = this
    show ?thesis
    proof (cases "length d < MAGIC")
      case True
      with ne show ?thesis
        by (simp add: slices_rec [of d] slices_rec [of "[]"] aiter_loop_short_cons
            aiter_loop_short_nil MAGIC_pos)
    next
      case False
      with ne MAGIC_pos have "length (drop MAGIC d) < length d" by simp
      then have "aiter_loop [] (slices (drop MAGIC d)) None = (slices (drop MAGIC d), None)"
        by (rule less.hyps)
      with False ne show ?thesis
        by (simp add: slices_rec [of d] aiter_loop_short_cons aiter_loop_full MAGIC_pos)
    qed
  qed
qed

lemma slices_length: "y \<in> set (slices d) \<Longrightarrow> length y \<le> MAGIC"
  by (auto simp: slices_def)

text \<open>
  C1, as amended. Every chunk the reader yields but the last one holds at least
  \<^verbatim>\<open>_MAGIC\<close> bytes. When the source yields chunks of at most \<open>m\<close> bytes, every
  yielded chunk is shorter than \<^verbatim>\<open>_MAGIC\<close> plus \<open>m\<close>: shorter than twice
  \<^verbatim>\<open>_MAGIC\<close> when no source chunk is larger than \<^verbatim>\<open>_MAGIC\<close>. A flat buffer is yielded
  in chunks of at most \<^verbatim>\<open>_MAGIC\<close> bytes.
\<close>

theorem rebuffered_chunk_sizes:
  "(Suc i < length (fst (IteratorReader_aiter d)) \<longrightarrow>
      MAGIC \<le> length (fst (IteratorReader_aiter d) ! i))
   \<and> ((\<forall>c \<in> set (fst (wrap_iter d)). length c \<le> m) \<and> y \<in> set (fst (IteratorReader_aiter d)) \<longrightarrow>
      length y < MAGIC + m)
   \<and> ((\<forall>c \<in> set (fst (wrap_iter d)). length c \<le> MAGIC) \<and> y \<in> set (fst (IteratorReader_aiter d)) \<longrightarrow>
      length y < 2 * MAGIC)
   \<and> (y \<in> set (fst (IteratorReader_aiter (RawBytes b))) \<longrightarrow> length y \<le> MAGIC)"
proof -
  have len0: "length ([]::bytes) < MAGIC + k" for k by (simp add: MAGIC_pos)
  have a: "Suc i < length (fst (IteratorReader_aiter d)) \<longrightarrow>
      MAGIC \<le> length (fst (IteratorReader_aiter d) ! i)"
    by (simp add: IteratorReader_aiter_def split_beta aiter_loop_min)
  have b: "(\<forall>c \<in> set (fst (wrap_iter d)). length c \<le> k) \<and> y \<in> set (fst (IteratorReader_aiter d)) \<longrightarrow>
      length y < MAGIC + k" for k
    using aiter_loop_max [OF len0, of "fst (wrap_iter d)" k y "snd (wrap_iter d)"]
    by (simp add: IteratorReader_aiter_def split_beta)
  have c: "y \<in> set (fst (IteratorReader_aiter (RawBytes b))) \<longrightarrow> length y \<le> MAGIC"
    by (simp add: IteratorReader_aiter_def aiter_loop_slices slices_length)
  from a b [of m] b [of MAGIC] c show ?thesis by (simp add: mult_2)
qed

lemma aiter_example:
  "IteratorReader_aiter (Lazy Iterable
      [BytesChunk (replicate 51199 0), StrChunk ''ab'', BytesChunk [7]])
   = ([replicate 51199 0 @ [97, 98], [7]], None)"
  by (simp add: IteratorReader_aiter_def aiter_loop_short_cons aiter_loop_full
      aiter_loop_short_nil MAGIC_def utf8_encode_def utf8_char_def)

theorem rebuffered_chunk_sizes_witness:
  "Suc 0 < length (fst (IteratorReader_aiter (Lazy Iterable
      [BytesChunk (replicate 51199 0), StrChunk ''ab'', BytesChunk [7]])))
   \<and> list_all (\<lambda>c. length c \<le> MAGIC) (fst (wrap_iter (Lazy Iterable
      [BytesChunk (replicate 51199 0), StrChunk ''ab'', BytesChunk [7]])))
   \<and> replicate 51199 0 @ [97, 98] \<in> set (fst (IteratorReader_aiter (Lazy Iterable
      [BytesChunk (replicate 51199 0), StrChunk ''ab'', BytesChunk [7]])))
   \<and> MAGIC \<le> length (replicate 51199 (0::byte) @ [97, 98])
   \<and> length (replicate 51199 (0::byte) @ [97, 98]) < 2 * MAGIC"
  using rebuffered_chunk_sizes [of 0
      "Lazy Iterable [BytesChunk (replicate 51199 0), StrChunk ''ab'', BytesChunk [7]]"
      MAGIC "replicate 51199 0 @ [97, 98]" "[]"]
  by (simp add: aiter_example MAGIC_def utf8_encode_def utf8_char_def)

text \<open>
  The claim as stated fails: two source chunks of 51199 and 2 bytes, both below the
  51200 bytes of \<^verbatim>\<open>_MAGIC\<close>, are yielded as one chunk of 51201 bytes.
\<close>

theorem oversized_chunk:
  "map length (fst (IteratorReader_aiter (Lazy Iterable
      [BytesChunk (replicate 51199 0), BytesChunk [0, 0]]))) = [51201]
   \<and> MAGIC = 51200"
  by (simp add: IteratorReader_aiter_def aiter_loop_short_cons aiter_loop_full
      aiter_loop_short_nil MAGIC_def)


subsection \<open>Text, bytes and other chunks\<close>

lemma wrap_iter_lazy: "wrap_iter (Lazy k cs) = assert_each cs"
  by (cases k) simp_all

lemma assert_each_good:
  "\<forall>c \<in> set cs. \<not> is_other c \<Longrightarrow> assert_each cs = (map chunk_bytes cs, None)"
proof (induction cs)
  case Nil
  show ?case by simp
next
  case (Cons c cs)
  then show ?case by (cases c) simp_all
qed

lemma assert_each_append:
  "\<forall>c \<in> set pre. \<not> is_other c \<Longrightarrow>
   assert_each (pre @ cs) = (map chunk_bytes pre @ fst (assert_each cs), snd (assert_each cs))"
proof (induction pre)
  case Nil
  show ?case by simp
next
  case (Cons c pre)
  then show ?case by (cases c) (simp_all add: split_beta)
qed

lemma assert_each_str:
  "assert_each (pre @ StrChunk s # rest) = assert_each (pre @ BytesChunk (utf8_encode s) # rest)"
proof (induction pre)
  case Nil
  show ?case by simp
next
  case (Cons c pre)
  then show ?case by (cases c) simp_all
qed

text \<open>
  C8. A \<^verbatim>\<open>str\<close> chunk is encoded as UTF-8 and a \<^verbatim>\<open>bytes\<close> chunk is taken as it is,
  before the chunk is buffered: the reader cannot tell a \<^verbatim>\<open>str\<close> chunk from the
  \<^verbatim>\<open>bytes\<close> chunk of its encoding, and a source of such chunks is read to its end with
  its bytes in order. The first chunk of another type ends the iteration with a
  \<^verbatim>\<open>TypeError\<close> that names the type, and nothing behind that chunk is looked at.
\<close>

theorem chunk_types:
  "assert_bytes (StrChunk s) = Inr (utf8_encode s)
   \<and> assert_bytes (BytesChunk b) = Inr b
   \<and> IteratorReader_aiter (Lazy k (pre @ StrChunk s # rest))
       = IteratorReader_aiter (Lazy k (pre @ BytesChunk (utf8_encode s) # rest))
   \<and> ((\<forall>c \<in> set cs. \<not> is_other c) \<longrightarrow>
        snd (IteratorReader_aiter (Lazy k cs)) = None
        \<and> concat (fst (IteratorReader_aiter (Lazy k cs))) = concat (map chunk_bytes cs))
   \<and> ((\<forall>c \<in> set pre. \<not> is_other c) \<longrightarrow>
        snd (IteratorReader_aiter (Lazy k (pre @ OtherChunk t # rest)))
          = Some (TypeError (''Expected bytes but received '' @ t))
        \<and> IteratorReader_aiter (Lazy k (pre @ OtherChunk t # rest))
          = IteratorReader_aiter (Lazy k (pre @ [OtherChunk t])))"
  by (simp add: IteratorReader_aiter_def wrap_iter_lazy assert_each_str assert_each_good
      assert_each_append aiter_loop_ending aiter_loop_concat split_beta)

theorem chunk_types_witness:
  "list_all (\<lambda>c. \<not> is_other c) [BytesChunk [1], StrChunk [CHR 0xE9, CHR ''a'']]
   \<and> IteratorReader_aiter (Lazy Generator [BytesChunk [1], StrChunk [CHR 0xE9, CHR ''a'']])
       = ([[1, 0xC3, 0xA9, 0x61]], None)
   \<and> IteratorReader_aiter (Lazy Generator
        ([BytesChunk [1], StrChunk [CHR 0xE9, CHR ''a'']] @ OtherChunk ''int'' # [BytesChunk [2]]))
       = ([], Some (TypeError ''Expected bytes but received int''))"
proof -
  have e: "IteratorReader_aiter (Lazy Generator [BytesChunk [1], StrChunk [CHR 0xE9, CHR ''a'']])
       = ([[1, 0xC3, 0xA9, 0x61]], None)"
    by (simp add: IteratorReader_aiter_def aiter_loop_short_cons aiter_loop_short_nil MAGIC_def
        utf8_encode_def utf8_char_def)
  have f: "fst (IteratorReader_aiter (Lazy Generator
        [BytesChunk [1], StrChunk [CHR 0xE9, CHR ''a''], OtherChunk ''int''])) = []"
    by (simp add: IteratorReader_aiter_def aiter_loop_short_cons aiter_loop_short_nil MAGIC_def
        utf8_encode_def utf8_char_def)
  show ?thesis
    using chunk_types [of "[CHR 0xE9, CHR ''a'']" "[1]" Generator
        "[BytesChunk [1], StrChunk [CHR 0xE9, CHR ''a'']]" "[BytesChunk [2]]"
        "[BytesChunk [1], StrChunk [CHR 0xE9, CHR ''a'']]" "''int''"] e f
    by (simp add: prod_eq_iff)
qed


subsection \<open>Entering and leaving a handle\<close>

text \<open>
  C2, as amended. The handle of a \<^verbatim>\<open>File\<close> resource refuses to be left before it has
  been entered and to be entered while it is open, each with its own
  \<^verbatim>\<open>RuntimeError\<close>. The handle of a \<^verbatim>\<open>Bytes\<close> resource does nothing on entry and on
  exit, so neither ever fails, and the handle of a \<^verbatim>\<open>URL\<close> resource that has been
  entered can be entered again.
\<close>

theorem handle_state_errors:
  "(stream (File p fn sp) ex head = Inr h \<longrightarrow>
      aexit h = Inl (RuntimeError (''File isn'' @ [CHR 0x27] @ ''t open''))
      \<and> (aenter lib w h = Inr (ho, rd) \<longrightarrow>
           aenter lib w' ho = Inl (RuntimeError ''File is already open'')))
   \<and> stream (Bytes d name m sp) ex head = Inr (NoOpCM (IteratorReader (Bytes_filename name sp) m d))
   \<and> aenter lib w (NoOpCM impl) = Inr (NoOpCM impl, impl)
   \<and> aexit (NoOpCM impl) = Inr (NoOpCM impl)
   \<and> (stream (URL u ufn) ex head = Inr hu \<and> aenter lib w hu = Inr (hv, rdu) \<longrightarrow>
        aenter lib w hv = Inr (hv, rdu))"
  by (auto split: if_splits sum.splits option.splits)

lemma example_file_handle:
  "stream (File_init ''a.txt'' None False) None False
     = Inr (FileCM \<lparr>cm_executor = None, cm_file = None, cm_filename = ''a.txt'',
                     cm_path = Path [] [''a.txt'']\<rparr>)"
  "aenter example_library (example_world [''a.txt'' \<mapsto> RegularFile [1, 2, 3]])
     (FileCM \<lparr>cm_executor = None, cm_file = None, cm_filename = ''a.txt'',
              cm_path = Path [] [''a.txt'']\<rparr>)
   = Inr (FileCM \<lparr>cm_executor = None, cm_file = Some [1, 2, 3], cm_filename = ''a.txt'',
                   cm_path = Path [] [''a.txt'']\<rparr>,
          ThreadedFileReader ''a.txt'' None None [1, 2, 3])"
  by (simp_all add: File_init_def ensure_path_def path_root_def startswith_def File_filename_def
      path_name_def example_world_def open_read_path_def expanduser_def path_str_def)

lemma example_web_handle:
  "aenter example_library (example_world Map.empty)
     (WebCM \<lparr>cm_web_resource = URL ''https://example.com/a.png'' None, cm_head_only = False,
             cm_client_session = sess, cm_client_response_ctx = ctx\<rparr>)
   = Inr (WebCM \<lparr>cm_web_resource = URL ''https://example.com/a.png'' None, cm_head_only = False,
                  cm_client_session = Some (), cm_client_response_ctx = Some example_response\<rparr>,
          WebReader \<lparr>wr_filename = ''a.png'', wr_mimetype = Some ''image/png'',
                     wr_stream = [[1, 2], [3]], wr_url = ''https://example.com/a.png'',
                     wr_status = 200, wr_reason = ''OK'', wr_charset = None, wr_size = Some 3,
                     wr_head_only = False\<rparr>)"
proof -
  have "urlparse_path example_library ''https://example.com/a.png'' = Inr ''/a.png''"
    by code_simp
  then show ?thesis
    by (simp add: example_world_def example_response_def URL_filename_def basename_def)
qed

theorem handle_state_errors_witness:
  "stream (File_init ''a.txt'' None False) None False
     = Inr (FileCM \<lparr>cm_executor = None, cm_file = None, cm_filename = ''a.txt'',
                     cm_path = Path [] [''a.txt'']\<rparr>)
   \<and> aexit (FileCM \<lparr>cm_executor = None, cm_file = None, cm_filename = ''a.txt'',
                     cm_path = Path [] [''a.txt'']\<rparr>)
     = Inl (RuntimeError (''File isn'' @ [CHR 0x27] @ ''t open''))
   \<and> aenter example_library (example_world [''a.txt'' \<mapsto> RegularFile [1, 2, 3]])
       (FileCM \<lparr>cm_executor = None, cm_file = Some [1, 2, 3], cm_filename = ''a.txt'',
                cm_path = Path [] [''a.txt'']\<rparr>)
     = Inl (RuntimeError ''File is already open'')
   \<and> stream (URL ''https://example.com/a.png'' None) None False
     = Inr (WebCM \<lparr>cm_web_resource = URL ''https://example.com/a.png'' None, cm_head_only = False,
                    cm_client_session = None, cm_client_response_ctx = None\<rparr>)
   \<and> aenter example_library (example_world Map.empty)
       (WebCM \<lparr>cm_web_resource = URL ''https://example.com/a.png'' None, cm_head_only = False,
               cm_client_session = Some (), cm_client_response_ctx = Some example_response\<rparr>)
     = Inr (WebCM \<lparr>cm_web_resource = URL ''https://example.com/a.png'' None, cm_head_only = False,
                    cm_client_session = Some (), cm_client_response_ctx = Some example_response\<rparr>,
            WebReader \<lparr>wr_filename = ''a.png'', wr_mimetype = Some ''image/png'',
                       wr_stream = [[1, 2], [3]], wr_url = ''https://example.com/a.png'',
                       wr_status = 200, wr_reason = ''OK'', wr_charset = None, wr_size = Some 3,
                       wr_head_only = False\<rparr>)"
  using handle_state_errors [where p = "Path [] [''a.txt'']" and fn = None and sp = False
      and ex = None and head = False and lib = example_library
      and w = "example_world [''a.txt'' \<mapsto> RegularFile [1, 2, 3]]"
      and w' = "example_world [''a.txt'' \<mapsto> RegularFile [1, 2, 3]]"
      and h = "FileCM \<lparr>cm_executor = None, cm_file = None, cm_filename = ''a.txt'',
                     cm_path = Path [] [''a.txt'']\<rparr>"
      and ho = "FileCM \<lparr>cm_executor = None, cm_file = Some [1, 2, 3], cm_filename = ''a.txt'',
                   cm_path = Path [] [''a.txt'']\<rparr>"
      and rd = "ThreadedFileReader ''a.txt'' None None [1, 2, 3]"]
    example_file_handle example_web_handle
  by (simp add: File_init_def ensure_path_def path_root_def startswith_def)

text \<open>
  The claim as stated fails: the handle of a \<^verbatim>\<open>Bytes\<close> resource is entered twice and
  left without having been entered, and nothing fails.
\<close>

theorem noop_handle_never_fails:
  "stream (Bytes (RawBytes [1]) ''a.bin'' (Some ''x/y'') False) None False
     = Inr (NoOpCM (IteratorReader ''a.bin'' (Some ''x/y'') (RawBytes [1])))
   \<and> aenter example_library (example_world Map.empty)
        (NoOpCM (IteratorReader ''a.bin'' (Some ''x/y'') (RawBytes [1])))
     = Inr (NoOpCM (IteratorReader ''a.bin'' (Some ''x/y'') (RawBytes [1])),
            IteratorReader ''a.bin'' (Some ''x/y'') (RawBytes [1]))
   \<and> aenter example_library (example_world Map.empty)
        (fst (NoOpCM (IteratorReader ''a.bin'' (Some ''x/y'') (RawBytes [1])),
              IteratorReader ''a.bin'' (Some ''x/y'') (RawBytes [1])))
     = Inr (NoOpCM (IteratorReader ''a.bin'' (Some ''x/y'') (RawBytes [1])),
            IteratorReader ''a.bin'' (Some ''x/y'') (RawBytes [1]))
   \<and> aexit (NoOpCM (IteratorReader ''a.bin'' (Some ''x/y'') (RawBytes [1])))
     = Inr (NoOpCM (IteratorReader ''a.bin'' (Some ''x/y'') (RawBytes [1])))"
  by (simp add: Bytes_filename_def)


subsection \<open>Saving over an existing file\<close>



lemma example_target: "path_str (ensure_path ''/tmp/out.bin'') = ''/tmp/out.bin''"
  by (simp add: ensure_path_def path_root_def startswith_def path_str_def)


text \<open>With \<^verbatim>\<open>force=True\<close> the same call writes the chunks of the resource to the target.\<close>

lemma save_force_example:
  "save example_library (example_world [''/tmp/out.bin'' \<mapsto> RegularFile [9]])
     (Bytes (Lazy Iterable [BytesChunk [1], StrChunk ''a'']) ''a.bin'' (Some ''x/y'') False)
     ''/tmp/out.bin'' None True
   = (Inr (), [''/tmp/out.bin'' \<mapsto> RegularFile [1, 97]])"
  by (simp add: Resource_save_def open_write_path_def to_write_path_def is_dir_def
      path_exists_def example_target expanduser_def open_wb_def example_world_def
      Bytes_filename_def ensure_path_def path_root_def startswith_def
      IteratorReader_aiter_def aiter_loop_short_cons aiter_loop_short_nil MAGIC_def
      utf8_encode_def utf8_char_def Let_def path_str_def)


subsection \<open>Classification by \<^verbatim>\<open>ensure_resource\<close>\<close>

lemma data_not_http:
  "startswith u ''data:'' \<Longrightarrow> \<not> startswith u ''https://'' \<and> \<not> startswith u ''http://''"
  by (cases u) (auto simp: startswith_def)

text \<open>
  C4. In this order: a resource is returned as it is; a raw value becomes a \<^verbatim>\<open>Bytes\<close>
  resource of its bytes under a generated filename, the \<^verbatim>\<open>uuid\<close> token and an
  extension; a string that starts with \<^verbatim>\<open>https://\<close> or \<^verbatim>\<open>http://\<close> becomes a \<^verbatim>\<open>URL\<close>
  resource, whose filename is the last segment of the path of the URL; a string that
  starts with \<^verbatim>\<open>data:\<close> becomes what \<^verbatim>\<open>Bytes.from_data_uri\<close> decodes, a \<^verbatim>\<open>Bytes\<close>
  resource, and a \<^verbatim>\<open>File\<close> resource when the decoding fails with its \<^verbatim>\<open>ValueError\<close>;
  any other string becomes a \<^verbatim>\<open>File\<close> resource. The filename of the \<^verbatim>\<open>File\<close> resource
  is the last component of the path.
\<close>

theorem ensure_resource_classification:
  "ensure_resource lib (AResource r) = Inr r
   \<and> (guess_type lib (generate_filename_from_details lib None None (Some (unwrap_bytes raw))) = Inr g \<longrightarrow>
        (\<exists>ext m. ensure_resource lib (ARaw raw)
           = Inr (Bytes (RawBytes (unwrap_bytes raw)) (uuid lib @ ext) (Some m) False)))
   \<and> (startswith u ''https://'' \<or> startswith u ''http://'' \<longrightarrow>
        ensure_resource lib (APath u) = Inr (URL u None)
        \<and> filename lib (URL u None)
            = (case urlparse_path lib u of Inl e \<Rightarrow> Inl e | Inr p \<Rightarrow> Inr (basename p)))
   \<and> (startswith u ''data:'' \<and> from_data_uri lib u None = Inr b \<longrightarrow>
        ensure_resource lib (APath u) = Inr b \<and> class_of b = Bytes_class)
   \<and> (startswith u ''data:'' \<and> from_data_uri lib u None = Inl (ValueError msg) \<longrightarrow>
        ensure_resource lib (APath u)
          = Inr (File (ensure_path u) (Some (path_name (ensure_path u))) False))
   \<and> (\<not> startswith u ''https://'' \<and> \<not> startswith u ''http://'' \<and> \<not> startswith u ''data:'' \<longrightarrow>
        ensure_resource lib (APath u)
          = Inr (File (ensure_path u) (Some (path_name (ensure_path u))) False))
   \<and> filename lib (File (ensure_path u) (Some (path_name (ensure_path u))) False)
       = Inr (path_name (ensure_path u))"
proof -
  have raw: "guess_type lib (generate_filename_from_details lib None None (Some (unwrap_bytes raw))) = Inr g \<longrightarrow>
        (\<exists>ext m. ensure_resource lib (ARaw raw)
           = Inr (Bytes (RawBytes (unwrap_bytes raw)) (uuid lib @ ext) (Some m) False))"
    by (auto simp: ensure_resource_def Bytes_init_def guess_mimetype_from_filename_def
        generate_filename_from_details_def Let_def)
  have http: "startswith u ''https://'' \<or> startswith u ''http://'' \<longrightarrow>
        ensure_resource lib (APath u) = Inr (URL u None)
        \<and> filename lib (URL u None)
            = (case urlparse_path lib u of Inl e \<Rightarrow> Inl e | Inr p \<Rightarrow> Inr (basename p))"
    by (simp add: ensure_resource_def URL_init_def URL_filename_def)
  have cls: "class_of b = Bytes_class" if "from_data_uri lib u None = Inr b"
    using that
    by (auto simp: from_data_uri_def Bytes_init_def split: if_splits sum.splits option.splits)
  have data_ok: "startswith u ''data:'' \<and> from_data_uri lib u None = Inr b \<longrightarrow>
        ensure_resource lib (APath u) = Inr b \<and> class_of b = Bytes_class"
    using cls by (auto simp: ensure_resource_def dest: data_not_http)
  have data_bad: "startswith u ''data:'' \<and> from_data_uri lib u None = Inl (ValueError msg) \<longrightarrow>
        ensure_resource lib (APath u)
          = Inr (File (ensure_path u) (Some (path_name (ensure_path u))) False)"
    by (auto simp: ensure_resource_def File_init_def dest: data_not_http)
  have other: "\<not> startswith u ''https://'' \<and> \<not> startswith u ''http://'' \<and> \<not> startswith u ''data:'' \<longrightarrow>
        ensure_resource lib (APath u)
          = Inr (File (ensure_path u) (Some (path_name (ensure_path u))) False)"
    by (simp add: ensure_resource_def File_init_def)
  have name: "filename lib (File (ensure_path u) (Some (path_name (ensure_path u))) False)
       = Inr (path_name (ensure_path u))"
    by (simp add: File_filename_def)
  from raw http data_ok data_bad other name show ?thesis
    by (simp add: ensure_resource_def)
qed

lemma example_classification:
  "guess_type example_library (generate_filename_from_details example_library None None
      (Some (unwrap_bytes (RByteArray ([0x89] @ ascii ''PNG'' @ [0x0D, 0x0A, 0x1A, 0x0A])))))
     = Inr (Some ''image/png'')"
  "ensure_resource example_library (ARaw (RByteArray ([0x89] @ ascii ''PNG'' @ [0x0D, 0x0A, 0x1A, 0x0A])))
     = Inr (Bytes (RawBytes [0x89, 0x50, 0x4E, 0x47, 0x0D, 0x0A, 0x1A, 0x0A]) ''18f3a9c2.png''
         (Some ''image/png'') False)"
  "filename example_library (URL ''https://example.com/a.png'' None) = Inr ''a.png''"
  "from_data_uri example_library ''data:text/plain;base64,aGk='' None
     = Inr (Bytes (RawBytes [0x68, 0x69]) ''18f3a9c2.txt'' (Some ''text/plain'') False)"
  "from_data_uri example_library ''data:text/plain;base64,aGk'' None
     = Inl (ValueError ''Failed to decode data URI'')"
  "ensure_path ''data:text/plain;base64,aGk'' = Path [] [''data:text'', ''plain;base64,aGk'']"
  "ensure_path ''/tmp/foo.txt'' = Path ''/'' [''tmp'', ''foo.txt'']"
  by code_simp+

theorem ensure_resource_classification_witness:
  "ensure_resource example_library
      (AResource (Bytes (RawBytes []) ''a.bin'' (Some ''x/y'') True))
     = Inr (Bytes (RawBytes []) ''a.bin'' (Some ''x/y'') True)
   \<and> ensure_resource example_library
        (ARaw (RByteArray ([0x89] @ ascii ''PNG'' @ [0x0D, 0x0A, 0x1A, 0x0A])))
     = Inr (Bytes (RawBytes [0x89, 0x50, 0x4E, 0x47, 0x0D, 0x0A, 0x1A, 0x0A]) ''18f3a9c2.png''
         (Some ''image/png'') False)
   \<and> ensure_resource example_library (APath ''https://example.com/a.png'')
     = Inr (URL ''https://example.com/a.png'' None)
   \<and> filename example_library (URL ''https://example.com/a.png'' None) = Inr ''a.png''
   \<and> ensure_resource example_library (APath ''data:text/plain;base64,aGk='')
     = Inr (Bytes (RawBytes [0x68, 0x69]) ''18f3a9c2.txt'' (Some ''text/plain'') False)
   \<and> ensure_resource example_library (APath ''data:text/plain;base64,aGk'')
     = Inr (File (Path [] [''data:text'', ''plain;base64,aGk'']) (Some ''plain;base64,aGk'') False)
   \<and> ensure_resource example_library (APath ''/tmp/foo.txt'')
     = Inr (File (Path ''/'' [''tmp'', ''foo.txt'']) (Some ''foo.txt'') False)
   \<and> filename example_library (File (Path ''/'' [''tmp'', ''foo.txt'']) (Some ''foo.txt'') False)
     = Inr ''foo.txt''"
  using ensure_resource_classification [where lib = example_library
      and r = "Bytes (RawBytes []) ''a.bin'' (Some ''x/y'') True"
      and raw = "RByteArray ([0x89] @ ascii ''PNG'' @ [0x0D, 0x0A, 0x1A, 0x0A])"
      and g = "Some ''image/png''" and u = "''https://example.com/a.png''"]
    ensure_resource_classification [where lib = example_library
      and u = "''data:text/plain;base64,aGk=''"
      and b = "Bytes (RawBytes [0x68, 0x69]) ''18f3a9c2.txt'' (Some ''text/plain'') False"]
    ensure_resource_classification [where lib = example_library
      and u = "''data:text/plain;base64,aGk''" and msg = "''Failed to decode data URI''"]
    ensure_resource_classification [where lib = example_library and u = "''/tmp/foo.txt''"]
    example_classification
  by (simp add: startswith_def path_name_def)


end
